theory Spec2Isabelle
  imports Complex_Main
begin

section \<open>Python values shared by the modules\<close>

text \<open>
  Python \<^verbatim>\<open>str\<close> values are modelled as \<^typ>\<open>string\<close>; a character is a code point
  below 256 (Latin-1).
\<close>

text \<open>
  How a call ends: it returns a value, raises \<^verbatim>\<open>typer.Exit(code)\<close>, or raises an
  exception that the function does not catch: the \<^verbatim>\<open>NameError\<close> of a name that the
  module uses and never imports, the \<^verbatim>\<open>OverflowError\<close> of a socket call on a port
  outside 0 to 65535, or the \<^verbatim>\<open>typer.BadParameter\<close> of an argument that its callback
  refuses (each with the name or the message).
\<close>

datatype pyexc = NameError string | OverflowError string | BadParameter string

datatype 'a outcome = Returned 'a | Exit int | Raised pyexc

text \<open>A Python tuple of integers and strings, as the list of its fields.\<close>

datatype pyval = PInt int | PStr string

type_synonym pytuple = "pyval list"

text \<open>\<^verbatim>\<open>float('inf')\<close> and the finite floats, the latter idealised as real numbers.\<close>

datatype pyfloat = Fin real | PosInf

text \<open>
  Console output and socket traffic are a list of events, one per call of a helper of
  \<^verbatim>\<open>netspect/utils/display.py\<close>, of \<^verbatim>\<open>console.print\<close> or of a socket method. The rich
  markup that the helpers wrap around their argument is left out, the argument itself is
  kept. A line that interpolates a float carries the values themselves, before their
  \<^verbatim>\<open>:.2f\<close> or \<^verbatim>\<open>:.1f\<close> rendering. Updates of the progress bar are not recorded.

  The console reads its argument as markup, where a tag starts with \<^verbatim>\<open>[\<close>, and refuses a
  closing tag that closes nothing. A text without \<^verbatim>\<open>[\<close> brings no tag of its own and is
  printed as it is. The events record the texts as printed, so the properties of the
  parser and of the scanner that hold for every text of the caller are stated for texts
  without \<^verbatim>\<open>[\<close>.
\<close>

datatype event =
    PrintInfo string
  | PrintSuccess string
  | PrintError string
  | ConsolePrint string
  | SockOpen
  | SockSetTimeout real
  | SockConnectEx string int
  | SockClose
  | ReplyLine string string real string
  | FailureLine string
  | StatsPackets int int int real
  | StatsRtt pyfloat real real
  | DisplayTable "(string \<times> string) list" string

definition markup_free :: "string \<Rightarrow> bool" where
  "markup_free s \<longleftrightarrow> CHR ''['' \<notin> set s"

subsection \<open>String primitives\<close>

text \<open>\<^verbatim>\<open>str.isspace\<close> on one code point below 256.\<close>

definition py_isspace :: "char \<Rightarrow> bool" where
  "py_isspace c \<longleftrightarrow> of_char c \<in> {9, 10, 11, 12, 13, 28, 29, 30, 31, 32, 133, 160 :: nat}"

text \<open>
  The white space \<^verbatim>\<open>int()\<close> skips around a number: the C locale's white space, and the
  two Latin-1 spaces that the conversion to ASCII turns into a blank.
\<close>

definition int_isspace :: "char \<Rightarrow> bool" where
  "int_isspace c \<longleftrightarrow> of_char c \<in> {9, 10, 11, 12, 13, 32, 133, 160 :: nat}"

text \<open>\<^verbatim>\<open>s.strip()\<close>.\<close>

definition strip :: "string \<Rightarrow> string" where
  "strip s = rev (dropWhile py_isspace (rev (dropWhile py_isspace s)))"

text \<open>\<^verbatim>\<open>s.split(c)\<close> for a separator of one character: never an empty list.\<close>

fun split_on :: "char \<Rightarrow> string \<Rightarrow> string list" where
  "split_on c [] = [[]]"
| "split_on c (x # xs) =
     (if x = c then [] # split_on c xs
      else (case split_on c xs of
              [] \<Rightarrow> [[x]]
            | p # ps \<Rightarrow> (x # p) # ps))"

text \<open>\<^verbatim>\<open>s.split(c, 1)\<close> when \<^verbatim>\<open>c in s\<close>: the text before and after the first \<^verbatim>\<open>c\<close>.\<close>

definition split_once :: "char \<Rightarrow> string \<Rightarrow> string \<times> string" where
  "split_once c s = (takeWhile (\<lambda>x. x \<noteq> c) s, tl (dropWhile (\<lambda>x. x \<noteq> c) s))"

text \<open>\<^verbatim>\<open>s.split()\<close>: the maximal runs of characters that are not white space.\<close>

fun split_ws_acc :: "string \<Rightarrow> string \<Rightarrow> string list" where
  "split_ws_acc cur [] = (if cur = [] then [] else [rev cur])"
| "split_ws_acc cur (c # cs) =
     (if py_isspace c then (if cur = [] then split_ws_acc [] cs else rev cur # split_ws_acc [] cs)
      else split_ws_acc (c # cur) cs)"

definition split_ws :: "string \<Rightarrow> string list" where
  "split_ws s = split_ws_acc [] s"

text \<open>\<^verbatim>\<open>sep.join(xs)\<close>.\<close>

fun join :: "string \<Rightarrow> string list \<Rightarrow> string" where
  "join sep [] = []"
| "join sep [x] = x"
| "join sep (x # y # ys) = x @ sep @ join sep (y # ys)"

text \<open>\<^verbatim>\<open>s.upper()\<close> on ASCII letters; other characters are kept.\<close>

definition upper_char :: "char \<Rightarrow> char" where
  "upper_char c = (if 97 \<le> (of_char c :: nat) \<and> (of_char c :: nat) \<le> 122
                   then char_of ((of_char c :: nat) - 32) else c)"

definition upper :: "string \<Rightarrow> string" where
  "upper s = map upper_char s"

subsection \<open>Decimal text of integers\<close>

definition is_digit :: "char \<Rightarrow> bool" where
  "is_digit c \<longleftrightarrow> 48 \<le> (of_char c :: nat) \<and> (of_char c :: nat) \<le> 57"

definition digit_val :: "char \<Rightarrow> nat" where
  "digit_val c = (of_char c :: nat) - 48"

definition digit_char :: "nat \<Rightarrow> char" where
  "digit_char d = char_of (48 + d)"

text \<open>\<^verbatim>\<open>str(n)\<close> for \<^verbatim>\<open>n >= 0\<close>.\<close>

fun str_nat :: "nat \<Rightarrow> string" where
  "str_nat n = (if n < 10 then [digit_char n] else str_nat (n div 10) @ [digit_char (n mod 10)])"

declare str_nat.simps [simp del]

text \<open>\<^verbatim>\<open>str(i)\<close>, which is also what an f-string puts for \<^verbatim>\<open>{i}\<close>.\<close>

definition str_int :: "int \<Rightarrow> string" where
  "str_int i = (if i < 0 then CHR ''-'' # str_nat (nat (- i)) else str_nat (nat i))"

text \<open>
  The digits of a decimal literal after its first digit: digits, each optionally preceded
  by one underscore. \<open>None\<close> is \<^verbatim>\<open>ValueError\<close>.
\<close>

fun digits_acc :: "nat \<Rightarrow> string \<Rightarrow> nat option" where
  "digits_acc n [] = Some n"
| "digits_acc n [c] = (if is_digit c then Some (10 * n + digit_val c) else None)"
| "digits_acc n (c # d # cs) =
     (if is_digit c then digits_acc (10 * n + digit_val c) (d # cs)
      else if c = CHR ''_'' \<and> is_digit d then digits_acc (10 * n + digit_val d) cs
      else None)"

definition parse_digits :: "string \<Rightarrow> nat option" where
  "parse_digits s = (case s of
       [] \<Rightarrow> None
     | c # cs \<Rightarrow> if is_digit c then digits_acc (digit_val c) cs else None)"

text \<open>
  \<^verbatim>\<open>int(s)\<close> in base 10: white space around, an optional sign, then the digits.
  \<open>None\<close> is \<^verbatim>\<open>ValueError\<close>. The interpreter's limit on the number of digits of the
  text is not modelled.
\<close>

definition py_int :: "string \<Rightarrow> int option" where
  "py_int s =
     (case rev (dropWhile int_isspace (rev (dropWhile int_isspace s))) of
        [] \<Rightarrow> None
      | c # cs \<Rightarrow>
          if c = CHR ''-'' then map_option (\<lambda>n. - int n) (parse_digits cs)
          else if c = CHR ''+'' then map_option int (parse_digits cs)
          else map_option int (parse_digits (c # cs)))"

section \<open>The port specification parser (cli.py)\<close>

definition default_ports :: "int list" where
  "default_ports = [21, 22, 23, 25, 53, 80, 110, 143, 443, 465, 587, 993, 995, 3306, 3389,
                    5432, 5900, 8080, 8443]"

definition range_error :: "string \<Rightarrow> string" where
  "range_error part = ''Invalid port range: '' @ part @ ''. Must be numbers between 1-65535.''"

definition number_error :: "string \<Rightarrow> string" where
  "number_error part = ''Invalid port number: '' @ part @ ''. Must be a number between 1-65535.''"

text \<open>
  The \<^verbatim>\<open>for part in parts\<close> loop of \<^verbatim>\<open>_parse_ports\<close>; \<open>ports\<close> is the Python set
  built so far. Every \<^verbatim>\<open>ValueError\<close>, the one of \<^verbatim>\<open>int()\<close> and the one the code raises
  itself, is caught by the handler that prints and raises \<^verbatim>\<open>typer.Exit(code=1)\<close>.
\<close>

fun parse_parts :: "string list \<Rightarrow> int set \<Rightarrow> event list \<times> int set outcome" where
  "parse_parts [] ports = ([], Returned ports)"
| "parse_parts (raw # rest) ports =
     (let part = strip raw in
      if part = [] then parse_parts rest ports
      else if CHR ''-'' \<in> set part then
        (case split_once CHR ''-'' part of (start, end) \<Rightarrow>
           (case py_int start of
              None \<Rightarrow> ([PrintError (range_error part)], Exit 1)
            | Some start_port \<Rightarrow>
                (case py_int end of
                   None \<Rightarrow> ([PrintError (range_error part)], Exit 1)
                 | Some end_port \<Rightarrow>
                     if \<not> (0 < start_port \<and> start_port \<le> 65535 \<and> 0 < end_port
                            \<and> end_port \<le> 65535 \<and> start_port \<le> end_port)
                     then ([PrintError (range_error part)], Exit 1)
                     else parse_parts rest (ports \<union> {start_port .. end_port}))))
      else
        (case py_int part of
           None \<Rightarrow> ([PrintError (number_error part)], Exit 1)
         | Some port_val \<Rightarrow>
             if \<not> (0 < port_val \<and> port_val \<le> 65535)
             then ([PrintError (number_error part)], Exit 1)
             else parse_parts rest (insert port_val ports)))"

text \<open>\<^verbatim>\<open>_parse_ports\<close>; \<open>None\<close> is Python's \<^verbatim>\<open>None\<close>, and \<^verbatim>\<open>not port_str\<close> also holds of
  the empty string.\<close>

definition parse_ports :: "string option \<Rightarrow> event list \<times> int list outcome" where
  "parse_ports port_str =
     (case port_str of
        None \<Rightarrow> ([], Returned default_ports)
      | Some s \<Rightarrow>
          if s = [] then ([], Returned default_ports)
          else (case parse_parts (split_on CHR '','' s) {} of
                  (evs, Returned ports) \<Rightarrow>
                    if ports = {} then (evs @ [PrintError ''No valid ports specified.''], Exit 1)
                    else (evs, Returned (sorted_list_of_set ports))
                | (evs, Exit c) \<Rightarrow> (evs, Exit c)
                | (evs, Raised e) \<Rightarrow> (evs, Raised e)))"

section \<open>The port scanner (core/discovery.py) and the scan command (cli.py)\<close>

text \<open>
  The network as the scanner sees it: \<^verbatim>\<open>socket.gethostbyname\<close> (an address, a
  \<^verbatim>\<open>socket.gaierror\<close>, or another exception with its message), the result code of
  \<^verbatim>\<open>connect_ex\<close> on an address and a port, and \<^verbatim>\<open>socket.getservbyport(port, "tcp")\<close>
  (a name, an \<^verbatim>\<open>OSError\<close>, or another exception).
\<close>

datatype resolve_result = Resolved string | GaiError | ResolveException string

datatype serv_result = ServiceName string | ServOSError | ServException

record net_env =
  gethostbyname :: "string \<Rightarrow> resolve_result"
  connect_ex :: "string \<Rightarrow> int \<Rightarrow> int"
  getservbyport :: "int \<Rightarrow> serv_result"

text \<open>\<^verbatim>\<open>f"{port:<5}"\<close>: the decimal text, padded with blanks on the right to five characters.\<close>

definition ljust5 :: "string \<Rightarrow> string" where
  "ljust5 s = s @ replicate (5 - length s) CHR '' ''"

text \<open>
  The \<^verbatim>\<open>for port in ports\<close> loop of \<^verbatim>\<open>scan_ports\<close>, with the list of open ports and the
  count of closed ones built so far. \<^verbatim>\<open>connect_ex\<close> raises \<^verbatim>\<open>OverflowError\<close> for a port
  outside 0 to 65535, before any connection is tried; nothing in \<^verbatim>\<open>scan_ports\<close> catches
  it, and the socket is not closed.
\<close>

fun scan_loop :: "net_env \<Rightarrow> string \<Rightarrow> real \<Rightarrow> int list \<Rightarrow> (int \<times> string \<times> string) list \<Rightarrow> nat
    \<Rightarrow> event list \<times> ((int \<times> string \<times> string) list \<times> nat) outcome" where
  "scan_loop env target_ip timeout [] open_ports closed_ports_count =
     ([], Returned (open_ports, closed_ports_count))"
| "scan_loop env target_ip timeout (port # rest) open_ports closed_ports_count =
     (if port < 0 \<or> 65535 < port then
        ([SockOpen, SockSetTimeout timeout],
         Raised (OverflowError ''connect_ex(): port must be 0-65535.''))
      else
       (let result = connect_ex env target_ip port in
        if result = 0 then
          (let service_name = (case getservbyport env port of
                                 ServiceName n \<Rightarrow> n
                               | ServOSError \<Rightarrow> ''unknown''
                               | ServException \<Rightarrow> ''unknown'')
           in case scan_loop env target_ip timeout rest
                     (open_ports @ [(port, ''open'', service_name)]) closed_ports_count of
                (evs, r) \<Rightarrow>
                  ([SockOpen, SockSetTimeout timeout, SockConnectEx target_ip port, SockClose] @ evs, r))
        else
          (case scan_loop env target_ip timeout rest open_ports (closed_ports_count + 1) of
             (evs, r) \<Rightarrow>
               ([SockOpen, SockSetTimeout timeout, SockConnectEx target_ip port, SockClose] @ evs, r))))"

definition open_port_line :: "int \<times> string \<times> string \<Rightarrow> event" where
  "open_port_line t = (case t of (port, status, service) \<Rightarrow>
     ConsolePrint (''  [bold green]Port '' @ ljust5 (str_int port) @ ''[/bold green] ('' @ service
                   @ '') is '' @ status))"

definition summary_line :: "nat \<Rightarrow> nat \<Rightarrow> event" where
  "summary_line n_open n_closed =
     PrintInfo (''Summary: '' @ str_nat n_open @ '' open, '' @ str_nat n_closed @ '' closed/filtered.'')"

text \<open>
  \<^verbatim>\<open>scan_ports\<close>. The module imports \<^verbatim>\<open>get_progress_bar\<close>, \<^verbatim>\<open>print_success\<close>,
  \<^verbatim>\<open>print_error\<close>, \<^verbatim>\<open>print_info\<close> and \<^verbatim>\<open>console\<close> from the display module and not
  \<^verbatim>\<open>print_warning\<close>, so the call of \<^verbatim>\<open>print_warning\<close> in the branch of no open port
  raises \<^verbatim>\<open>NameError\<close>. The value returned is the comprehension
  \<^verbatim>\<open>[(p, s) for p, s, _ in open_ports]\<close>.
\<close>

definition scan_ports :: "net_env \<Rightarrow> string \<Rightarrow> int list \<Rightarrow> real \<Rightarrow> event list \<times> pytuple list outcome" where
  "scan_ports env target ports timeout =
     (case gethostbyname env target of
        GaiError \<Rightarrow>
          ([PrintError (''Cannot resolve hostname: '' @ target
                        @ ''. Please check the name or use an IP address.'')], Returned [])
      | ResolveException e \<Rightarrow>
          ([PrintError (''An unexpected error occurred resolving hostname: '' @ e)], Returned [])
      | Resolved target_ip \<Rightarrow>
          (let info = PrintInfo (''Scanning '' @ target @ '' ('' @ target_ip @ '') for ''
                                 @ str_nat (length ports) @ '' port(s)...'')
           in case scan_loop env target_ip timeout ports [] 0 of
                (evs, Exit c) \<Rightarrow> (info # evs, Exit c)
              | (evs, Raised e) \<Rightarrow> (info # evs, Raised e)
              | (evs, Returned (open_ports, closed_ports_count)) \<Rightarrow>
                  if open_ports \<noteq> [] then
                    (info # evs
                     @ [PrintSuccess (CHR 0x0A # ''Open ports on '' @ target @ '' ('' @ target_ip @ ''):'')]
                     @ map open_port_line open_ports
                     @ [summary_line (length open_ports) closed_ports_count],
                     Returned (map (\<lambda>(p, s, _). [PInt p, PStr s]) open_ports))
                  else (info # evs, Raised (NameError ''print_warning''))))"

text \<open>
  The body of the \<^verbatim>\<open>scan\<close> command: it parses the ports, calls \<^verbatim>\<open>scan_ports\<close> and drops
  what that returns.
\<close>

definition scan :: "net_env \<Rightarrow> string \<Rightarrow> string option \<Rightarrow> real \<Rightarrow> event list \<times> unit outcome" where
  "scan env target ports_str timeout =
     (case parse_ports ports_str of
        (evs, Exit c) \<Rightarrow> (evs, Exit c)
      | (evs, Raised e) \<Rightarrow> (evs, Raised e)
      | (evs, Returned parsed_ports) \<Rightarrow>
          (case scan_ports env target parsed_ports timeout of
             (evs2, Exit c) \<Rightarrow> (evs @ evs2, Exit c)
           | (evs2, Raised e) \<Rightarrow> (evs @ evs2, Raised e)
           | (evs2, Returned r) \<Rightarrow> (evs @ evs2, Returned ())))"

text \<open>
  The callback \<^verbatim>\<open>_validate_host\<close> of the target argument. \<open>is_ip\<close> says whether
  \<^verbatim>\<open>ipaddress.ip_address\<close> accepts the text; any other text is refused when it is empty,
  starts or ends with a dot, or holds a blank.
\<close>

definition validate_host :: "(string \<Rightarrow> bool) \<Rightarrow> string \<Rightarrow> event list \<times> string outcome" where
  "validate_host is_ip hostname_or_ip =
     (if is_ip hostname_or_ip then ([], Returned hostname_or_ip)
      else if hostname_or_ip = [] \<or> hd hostname_or_ip = CHR ''.'' \<or> last hostname_or_ip = CHR ''.''
              \<or> CHR '' '' \<in> set hostname_or_ip
      then ([PrintError (''Invalid hostname or IP address: '' @ [CHR 0x27] @ hostname_or_ip @ [CHR 0x27])],
            Raised (BadParameter ([CHR 0x27] @ hostname_or_ip @ [CHR 0x27]
                                  @ '' is not a valid hostname or IP address.'')))
      else ([], Returned hostname_or_ip))"

text \<open>The \<^verbatim>\<open>scan\<close> command as the program runs it: the callback of the target, then the body.\<close>

definition scan_command :: "(string \<Rightarrow> bool) \<Rightarrow> net_env \<Rightarrow> string \<Rightarrow> string option \<Rightarrow> real
    \<Rightarrow> event list \<times> unit outcome" where
  "scan_command is_ip env target ports_str timeout =
     (case validate_host is_ip target of
        (evs, Exit c) \<Rightarrow> (evs, Exit c)
      | (evs, Raised e) \<Rightarrow> (evs, Raised e)
      | (evs, Returned validated) \<Rightarrow>
          (case scan env validated ports_str timeout of (evs2, r) \<Rightarrow> (evs @ evs2, r)))"

text \<open>
  The exit code of the process: 0 when the command returns, the code of
  \<^verbatim>\<open>typer.Exit\<close>, 2 for the usage error of a refused argument, and 1 when another
  exception reaches the interpreter.
\<close>

definition exit_code :: "'a outcome \<Rightarrow> int" where
  "exit_code r = (case r of
       Returned v \<Rightarrow> 0
     | Exit c \<Rightarrow> c
     | Raised (BadParameter m) \<Rightarrow> 2
     | Raised (NameError n) \<Rightarrow> 1
     | Raised (OverflowError m) \<Rightarrow> 1)"

section \<open>The reachability prober (core/discovery.py)\<close>

text \<open>One \<^verbatim>\<open>Response\<close> of the ping library, with the attributes the code reads.\<close>

record response =
  success :: bool
  time_elapsed_ms :: real
  message :: string
  error_message :: string

record ping_state =
  all_successful :: bool
  total_rtt :: real
  successful_pings :: int
  min_rtt :: pyfloat
  max_rtt :: real

text \<open>\<^verbatim>\<open>min(min_rtt, rtt_ms)\<close>: the first argument unless the second is less.\<close>

definition py_min :: "pyfloat \<Rightarrow> real \<Rightarrow> pyfloat" where
  "py_min m r = (case m of PosInf \<Rightarrow> Fin r | Fin x \<Rightarrow> if r < x then Fin r else Fin x)"

text \<open>\<^verbatim>\<open>max(max_rtt, rtt_ms)\<close>: the first argument unless the second is greater.\<close>

definition py_max :: "real \<Rightarrow> real \<Rightarrow> real" where
  "py_max m r = (if r > m then r else m)"

text \<open>\<^verbatim>\<open>a / b\<close>: \<open>None\<close> is \<^verbatim>\<open>ZeroDivisionError\<close>.\<close>

definition py_truediv :: "real \<Rightarrow> real \<Rightarrow> real option" where
  "py_truediv a b = (if b = 0 then None else Some (a / b))"

text \<open>
  The line printed for a reply. It indexes the words of \<^verbatim>\<open>response.message\<close>:
  \<^verbatim>\<open>split()[2][:-1]\<close>, \<^verbatim>\<open>split()[3]\<close> and \<^verbatim>\<open>split()[4].split('=')[1]\<close>. \<open>None\<close> is the
  \<^verbatim>\<open>IndexError\<close> of an index past the end of a list.
\<close>

definition reply_line :: "response \<Rightarrow> event option" where
  "reply_line r =
     (let ws = split_ws (message r) in
      if length ws \<le> 2 then None
      else if length ws \<le> 3 then None
      else if length ws \<le> 4 then None
      else (let kv = split_on CHR ''='' (ws ! 4) in
            if length kv \<le> 1 then None
            else Some (ReplyLine (butlast (ws ! 2)) (ws ! 3) (time_elapsed_ms r) (kv ! 1))))"

text \<open>
  The \<^verbatim>\<open>for response in response_list\<close> loop of \<^verbatim>\<open>ping_host\<close>. The state is updated
  before the line is printed, and an exception leaves the loop: \<open>None\<close> with the events
  before it.
\<close>

fun ping_loop :: "response list \<Rightarrow> ping_state \<Rightarrow> event list \<times> ping_state option" where
  "ping_loop [] st = ([], Some st)"
| "ping_loop (r # rest) st =
     (if success r then
        (let rtt_ms = time_elapsed_ms r;
             st' = st\<lparr>total_rtt := total_rtt st + rtt_ms,
                      successful_pings := successful_pings st + 1,
                      min_rtt := py_min (min_rtt st) rtt_ms,
                      max_rtt := py_max (max_rtt st) rtt_ms\<rparr>
         in case reply_line r of
              None \<Rightarrow> ([], None)
            | Some line \<Rightarrow> (case ping_loop rest st' of (evs, res) \<Rightarrow> (line # evs, res)))
      else
        (case ping_loop rest (st\<lparr>all_successful := False\<rparr>) of
           (evs, res) \<Rightarrow> (FailureLine (error_message r) # evs, res)))"

definition ping_init :: ping_state where
  "ping_init = \<lparr>all_successful = True, total_rtt = 0, successful_pings = 0,
                min_rtt = PosInf, max_rtt = 0\<rparr>"

definition ping_error :: "string \<Rightarrow> string \<Rightarrow> event" where
  "ping_error target e = PrintError (''Error pinging '' @ target @ '': '' @ e)"

text \<open>
  \<^verbatim>\<open>ping_host\<close>. \<open>execute_ping\<close> is the ping library: the list of responses, or the
  message of the exception it raises. Every exception inside the \<^verbatim>\<open>try\<close> ends in the
  handler that prints it and returns \<^verbatim>\<open>False\<close>.
\<close>

definition ping_host :: "(string \<Rightarrow> int \<Rightarrow> int \<Rightarrow> bool \<Rightarrow> string + response list)
    \<Rightarrow> string \<Rightarrow> int \<Rightarrow> int \<Rightarrow> bool \<Rightarrow> event list \<times> bool" where
  "ping_host execute_ping target count timeout verbose =
     (let info = PrintInfo (''Pinging '' @ target @ '' with '' @ str_int count
                            @ '' packets, timeout '' @ str_int timeout @ ''s...'')
      in case execute_ping target count timeout verbose of
           Inl e \<Rightarrow> ([info, ping_error target e], False)
         | Inr response_list \<Rightarrow>
             (case ping_loop response_list ping_init of
                (evs, None) \<Rightarrow>
                  (info # evs @ [ping_error target ''list index out of range''], False)
              | (evs, Some st) \<Rightarrow>
                  if successful_pings st > 0 then
                    (case py_truediv (total_rtt st) (real_of_int (successful_pings st)) of
                       None \<Rightarrow> (info # evs @ [ping_error target ''division by zero''], False)
                     | Some avg_rtt \<Rightarrow>
                         (let header = PrintSuccess (CHR 0x0A # ''Ping statistics for '' @ target @ '':'')
                          in case py_truediv (real_of_int (count - successful_pings st))
                                             (real_of_int count) of
                               None \<Rightarrow>
                                 (info # evs @ [header, ping_error target ''division by zero''], False)
                             | Some lost \<Rightarrow>
                                 (info # evs
                                  @ [header,
                                     StatsPackets count (successful_pings st)
                                       (count - successful_pings st) (lost * 100),
                                     ConsolePrint ''Approximate round trip times in milli-seconds:'',
                                     StatsRtt (min_rtt st) (max_rtt st) avg_rtt],
                                  True)))
                  else
                    (info # evs @ [PrintError (CHR 0x0A # ''No successful pings to '' @ target @ ''.'')],
                     False)))"

section \<open>The DNS resolver (core/dns_utils.py)\<close>

definition SUPPORTED_RECORD_TYPES :: "string list" where
  "SUPPORTED_RECORD_TYPES = [''A'', ''AAAA'', ''MX'', ''NS'', ''CNAME'', ''TXT'', ''SOA'', ''SRV'']"

text \<open>
  A domain name of the DNS library is its sequence of labels; an absolute name ends with
  the empty label of the root. \<^verbatim>\<open>Name.to_text(omit_final_dot)\<close> writes the name without
  labels as \<^verbatim>\<open>@\<close> and the root as a dot; it joins the escaped labels with dots, after
  dropping the root label of an absolute name when \<open>omit_final_dot\<close> is set. \<open>esc\<close> is
  the library's escaping of one label.
\<close>

type_synonym dns_name = "string list"

definition name_to_text :: "(string \<Rightarrow> string) \<Rightarrow> bool \<Rightarrow> dns_name \<Rightarrow> string" where
  "name_to_text esc omit_final_dot labels =
     (if labels = [] then ''@''
      else if labels = [[]] then ''.''
      else join ''.'' (map esc (if omit_final_dot \<and> last labels = [] then butlast labels
                                else labels)))"

text \<open>
  The records of the DNS library, with the attributes the code reads; the segments of a
  TXT record are byte strings. A record of another type is known by the text that its
  own \<^verbatim>\<open>to_text\<close> gives.
\<close>

datatype rdata =
    MX_rdata int dns_name
  | SOA_rdata dns_name dns_name int
  | TXT_rdata "string list"
  | SRV_rdata int int int dns_name
  | Other_rdata string

text \<open>What \<^verbatim>\<open>resolver.resolve(hostname, rtype)\<close> does: answers, or one of the exceptions
  the code tells apart, or another exception with its message.\<close>

datatype dns_reply =
    Answers "rdata list"
  | NXDOMAIN
  | NoAnswer
  | Timeout
  | ResolverError string

text \<open>
  The DNS library: the resolver, the escaping of a label, \<^verbatim>\<open>to_text(omit_final_dot=True)\<close>
  of a record, \<^verbatim>\<open>decode('utf-8')\<close> of a byte string (\<open>Inl\<close> is the message of the
  \<^verbatim>\<open>UnicodeDecodeError\<close>), and the message of the \<^verbatim>\<open>AttributeError\<close> of a record that
  lacks an attribute.
\<close>

record dns_env =
  resolve :: "string \<Rightarrow> string \<Rightarrow> dns_reply"
  escapify :: "string \<Rightarrow> string"
  rdata_to_text :: "rdata \<Rightarrow> string"
  decode_utf8 :: "string \<Rightarrow> string + string"
  attribute_error :: "rdata \<Rightarrow> string \<Rightarrow> string"

text \<open>The generator \<^verbatim>\<open>txt_string.decode('utf-8') for txt_string in rdata.strings\<close>.\<close>

fun decode_all :: "(string \<Rightarrow> string + string) \<Rightarrow> string list \<Rightarrow> string + string list" where
  "decode_all dec [] = Inr []"
| "decode_all dec (b # bs) =
     (case dec b of
        Inl e \<Rightarrow> Inl e
      | Inr t \<Rightarrow> (case decode_all dec bs of Inl e \<Rightarrow> Inl e | Inr ts \<Rightarrow> Inr (t # ts)))"

text \<open>
  The text appended for one record, chosen by the requested type: the body of
  \<^verbatim>\<open>for rdata in answers\<close>. \<open>Inl\<close> is the message of an exception.
\<close>

definition format_rdata :: "dns_env \<Rightarrow> string \<Rightarrow> rdata \<Rightarrow> string + string" where
  "format_rdata env r_type rd =
     (if upper r_type = ''MX'' then
        (case rd of
           MX_rdata preference exchange \<Rightarrow>
             Inr (''Preference: '' @ str_int preference @ '', Exchange: '' @ name_to_text (escapify env) True exchange)
         | _ \<Rightarrow> Inl (attribute_error env rd ''preference''))
      else if upper r_type = ''SOA'' then
        (case rd of
           SOA_rdata mname rname serial \<Rightarrow>
             Inr (''MNAME: '' @ name_to_text (escapify env) True mname @ '', RNAME: '' @ name_to_text (escapify env) True rname
                  @ '', Serial: '' @ str_int serial)
         | _ \<Rightarrow> Inl (attribute_error env rd ''mname''))
      else if upper r_type = ''TXT'' then
        (case rd of
           TXT_rdata strings \<Rightarrow>
             (case decode_all (decode_utf8 env) strings of
                Inl e \<Rightarrow> Inl e
              | Inr ts \<Rightarrow> Inr (join '' '' ts))
         | _ \<Rightarrow> Inl (attribute_error env rd ''strings''))
      else if upper r_type = ''SRV'' then
        (case rd of
           SRV_rdata priority weight port target \<Rightarrow>
             Inr (''Priority: '' @ str_int priority @ '', Weight: '' @ str_int weight
                  @ '', Port: '' @ str_int port @ '', Target: '' @ name_to_text (escapify env) True target)
         | _ \<Rightarrow> Inl (attribute_error env rd ''priority''))
      else Inr (rdata_to_text env rd))"

text \<open>
  The dictionary \<^verbatim>\<open>results\<close>, in insertion order: a key that occurs again keeps its first
  place. \<^verbatim>\<open>results[r_type].append(v)\<close> finds the key, which is one of \<^verbatim>\<open>record_types\<close>.
\<close>

fun init_results :: "string list \<Rightarrow> (string \<times> string list) list" where
  "init_results [] = []"
| "init_results (r # rs) = (r, []) # init_results (filter (\<lambda>x. x \<noteq> r) rs)"

definition append_result :: "string \<Rightarrow> string \<Rightarrow> (string \<times> string list) list
    \<Rightarrow> (string \<times> string list) list" where
  "append_result r_type v results =
     map (\<lambda>(k, vs). if k = r_type then (k, vs @ [v]) else (k, vs)) results"

text \<open>\<^verbatim>\<open>for rdata in answers\<close>: the records formatted before an exception stay appended.\<close>

fun format_answers :: "dns_env \<Rightarrow> string \<Rightarrow> rdata list \<Rightarrow> (string \<times> string list) list
    \<Rightarrow> (string \<times> string list) list \<times> string option" where
  "format_answers env r_type [] results = (results, None)"
| "format_answers env r_type (rd # rest) results =
     (case format_rdata env r_type rd of
        Inl e \<Rightarrow> (results, Some e)
      | Inr v \<Rightarrow> format_answers env r_type rest (append_result r_type v results))"

text \<open>
  The \<^verbatim>\<open>for r_type in record_types\<close> loop of \<^verbatim>\<open>resolve_hostname\<close>. The module imports
  \<^verbatim>\<open>print_info\<close>, \<^verbatim>\<open>print_error\<close>, \<^verbatim>\<open>console\<close> and \<^verbatim>\<open>display_table\<close> and not
  \<^verbatim>\<open>print_warning\<close>: the handler of \<^verbatim>\<open>NoAnswer\<close> calls it first, and a \<^verbatim>\<open>NameError\<close>
  raised inside a handler is not caught by the handlers beside it.
\<close>

fun resolve_loop :: "dns_env \<Rightarrow> string \<Rightarrow> string list \<Rightarrow> (string \<times> string list) list
    \<Rightarrow> event list \<times> (string \<times> string list) list outcome" where
  "resolve_loop env hostname [] results = ([], Returned results)"
| "resolve_loop env hostname (r_type # rest) results =
     (if upper r_type \<notin> set SUPPORTED_RECORD_TYPES then
        (case resolve_loop env hostname rest results of
           (evs, res) \<Rightarrow>
             (PrintError (''Unsupported record type: '' @ r_type @ ''. Skipping.'') # evs, res))
      else
        (case resolve env hostname (upper r_type) of
           Answers answers \<Rightarrow>
             (case format_answers env r_type answers results of
                (results', None) \<Rightarrow> resolve_loop env hostname rest results'
              | (results', Some e) \<Rightarrow>
                  (case resolve_loop env hostname rest
                          (append_result r_type (''Error: '' @ e) results') of
                     (evs, res) \<Rightarrow>
                       (PrintError (''Error resolving '' @ hostname @ '' for type '' @ r_type
                                    @ '': '' @ e) # evs, res)))
         | NXDOMAIN \<Rightarrow>
             (case resolve_loop env hostname rest (append_result r_type ''NXDOMAIN'' results) of
                (evs, res) \<Rightarrow>
                  (PrintError (''Hostname '' @ hostname @ '' not found (NXDOMAIN) for type ''
                               @ r_type @ ''.'') # evs, res))
         | NoAnswer \<Rightarrow> ([], Raised (NameError ''print_warning''))
         | Timeout \<Rightarrow>
             (case resolve_loop env hostname rest (append_result r_type ''Timeout'' results) of
                (evs, res) \<Rightarrow>
                  (PrintError (''DNS query timed out for '' @ hostname @ '', type '' @ r_type
                               @ ''.'') # evs, res))
         | ResolverError e \<Rightarrow>
             (case resolve_loop env hostname rest
                     (append_result r_type (''Error: '' @ e) results) of
                (evs, res) \<Rightarrow>
                  (PrintError (''Error resolving '' @ hostname @ '' for type '' @ r_type
                               @ '': '' @ e) # evs, res))))"

text \<open>The rows of the table: one per answer, or \<^verbatim>\<open>No data\<close> for a type without any.\<close>

definition table_data :: "(string \<times> string list) list \<Rightarrow> (string \<times> string) list" where
  "table_data results =
     concat (map (\<lambda>(r_type, r_values).
                    if r_values \<noteq> [] then map (\<lambda>val. (upper r_type, val)) r_values
                    else [(upper r_type, ''No data'')]) results)"

text \<open>\<^verbatim>\<open>resolve_hostname\<close>: the loop, then the table, then the dictionary is returned.\<close>

definition resolve_hostname :: "dns_env \<Rightarrow> string \<Rightarrow> string list
    \<Rightarrow> event list \<times> (string \<times> string list) list outcome" where
  "resolve_hostname env hostname record_types =
     (let info = PrintInfo (''Performing DNS lookup for '' @ hostname @ '', types: ''
                            @ join '', '' record_types @ ''...'')
      in case resolve_loop env hostname record_types (init_results record_types) of
           (evs, Returned results) \<Rightarrow>
             if table_data results \<noteq> [] then
               (info # evs @ [DisplayTable (table_data results) (''DNS Records for '' @ hostname)],
                Returned results)
             else (info # evs, Raised (NameError ''print_warning''))
         | (evs, Exit c) \<Rightarrow> (info # evs, Exit c)
         | (evs, Raised e) \<Rightarrow> (info # evs, Raised e))"

section \<open>Notions used to state the properties\<close>

subsection \<open>Scanner\<close>

text \<open>The socket calls of the probe of one port.\<close>

definition probe_events :: "string \<Rightarrow> real \<Rightarrow> int \<Rightarrow> event list" where
  "probe_events ip timeout port = [SockOpen, SockSetTimeout timeout, SockConnectEx ip port, SockClose]"

text \<open>The service name recorded for an open port.\<close>

definition service_of :: "net_env \<Rightarrow> int \<Rightarrow> string" where
  "service_of env port = (case getservbyport env port of ServiceName n \<Rightarrow> n | _ \<Rightarrow> ''unknown'')"

text \<open>A network with one host, \<^verbatim>\<open>localhost\<close>, where only port 80 accepts connections.\<close>

definition demo_net :: net_env where
  "demo_net = \<lparr>gethostbyname = (\<lambda>h. if h = ''localhost'' then Resolved ''127.0.0.1'' else GaiError),
               connect_ex = (\<lambda>ip p. if p = 80 then 0 else 111),
               getservbyport = (\<lambda>p. if p = 80 then ServiceName ''http'' else ServOSError)\<rparr>"

text \<open>
  The dotted quads, which are the IPv4 addresses that \<^verbatim>\<open>ipaddress.ip_address\<close> accepts:
  four decimal numbers up to 255, of one to three digits, without a leading zero.
\<close>

definition is_octet :: "string \<Rightarrow> bool" where
  "is_octet p \<longleftrightarrow> p \<noteq> [] \<and> length p \<le> 3 \<and> list_all is_digit p
                \<and> (p = ''0'' \<or> hd p \<noteq> CHR ''0'')
                \<and> (case parse_digits p of Some n \<Rightarrow> n \<le> 255 | None \<Rightarrow> False)"

definition is_ipv4 :: "string \<Rightarrow> bool" where
  "is_ipv4 s \<longleftrightarrow> length (split_on CHR ''.'' s) = 4 \<and> list_all is_octet (split_on CHR ''.'' s)"

subsection \<open>Prober\<close>

text \<open>The round-trip times of the replies, in the order of the responses.\<close>

definition rtts :: "response list \<Rightarrow> real list" where
  "rtts rs = map time_elapsed_ms (filter success rs)"

text \<open>A reply with its time and message text, a lost packet, and a ping library that
  hands out a given list of responses.\<close>

definition reply :: "real \<Rightarrow> string \<Rightarrow> response" where
  "reply t m = \<lparr>success = True, time_elapsed_ms = t, message = m, error_message = []\<rparr>"

definition no_reply :: response where
  "no_reply = \<lparr>success = False, time_elapsed_ms = 2000, message = [],
               error_message = ''No response''\<rparr>"

definition demo_ping :: "response list \<Rightarrow> string \<Rightarrow> int \<Rightarrow> int \<Rightarrow> bool \<Rightarrow> string + response list" where
  "demo_ping rs target count timeout verbose = Inr rs"

subsection \<open>Resolver\<close>

text \<open>
  A DNS library whose labels need no escaping: \<^verbatim>\<open>example.com\<close> has the usual records
  and no AAAA record, and no other name exists.
\<close>

definition demo_dns :: dns_env where
  "demo_dns = \<lparr>
     resolve = (\<lambda>hostname rtype.
        if hostname \<noteq> ''example.com'' then NXDOMAIN
        else if rtype = ''A'' then Answers [Other_rdata ''93.184.216.34'']
        else if rtype = ''MX'' then Answers [MX_rdata 10 [''mail'', ''example'', ''com'', []]]
        else if rtype = ''SOA'' then
          Answers [SOA_rdata [''ns'', ''example'', ''com'', []] [''admin'', ''example'', ''com'', []] 2024]
        else if rtype = ''TXT'' then Answers [TXT_rdata [''v=spf1'', ''-all'']]
        else if rtype = ''SRV'' then Answers [SRV_rdata 10 5 5060 [''sip'', ''example'', ''com'', []]]
        else NoAnswer),
     escapify = (\<lambda>label. label),
     rdata_to_text = (\<lambda>rd. case rd of Other_rdata t \<Rightarrow> t | _ \<Rightarrow> []),
     decode_utf8 = Inr,
     attribute_error = (\<lambda>rd a. ''no attribute '' @ a)\<rparr>"

section \<open>Properties of the port scanner\<close>

text \<open>
  The loop probes the ports in the order of the list, each with one socket that is opened
  and closed; the open ports are recorded in that order with their service name, and the
  others are only counted.
\<close>

lemma scan_loop_trace:
  assumes "\<forall>p \<in> set ports. 0 \<le> p \<and> p \<le> 65535"
  shows "scan_loop env ip timeout ports open_ports n_closed =
     (concat (map (probe_events ip timeout) ports),
      Returned (open_ports @ map (\<lambda>p. (p, ''open'', service_of env p))
                                 (filter (\<lambda>p. connect_ex env ip p = 0) ports),
                n_closed + length (filter (\<lambda>p. connect_ex env ip p \<noteq> 0) ports)))"
  using assms
proof (induction ports arbitrary: open_ports n_closed)
  case Nil
  show ?case by simp
next
  case (Cons port rest)
  from Cons.prems have range: "\<not> (port < 0 \<or> 65535 < port)"
    and rest: "\<forall>p \<in> set rest. 0 \<le> p \<and> p \<le> 65535" by auto
  show ?case
  proof (cases "connect_ex env ip port = 0")
    case True
    then show ?thesis
      using range
      by (simp add: Cons.IH [OF rest] probe_events_def service_of_def split: serv_result.splits)
  next
    case False
    then show ?thesis
      using range by (simp add: Cons.IH [OF rest] probe_events_def)
  qed
qed




text \<open>
  Claim C2, as stated, fails in its last part: for a name that does not resolve the scan
  command returns normally, so the process exits with code 0 and not 1.
\<close>

theorem scan_unresolvable_exit_counterexample:
  "gethostbyname demo_net ''nohost.invalid'' = GaiError
   \<and> exit_code (snd (scan demo_net ''nohost.invalid'' None 0.5)) = 0
   \<and> exit_code (snd (scan_command is_ipv4 demo_net ''nohost.invalid'' None 0.5)) = 0"
  by code_simp

text \<open>
  Claim C2, amended: let the target be one that the callback of the command accepts as a
  host name (not empty, no dot at either end, no blank), that holds no console markup,
  and that does not resolve (where the resolver fails with another exception than
  \<^verbatim>\<open>gaierror\<close>, let its message hold no markup either). Then \<^verbatim>\<open>scan_ports\<close> prints one
  error, makes no socket call and returns the empty list; and the scan command, once
  the port specification has parsed, prints that error only and returns normally, which
  is exit code 0.
\<close>

theorem scan_ports_unresolvable:
  assumes "\<forall>ip. gethostbyname env target \<noteq> Resolved ip"
    and "target \<noteq> []" and "hd target \<noteq> CHR ''.''" and "last target \<noteq> CHR ''.''"
    and "CHR '' '' \<notin> set target"
    and "markup_free target"
    and "\<forall>e. gethostbyname env target = ResolveException e \<longrightarrow> markup_free e"
  shows "(gethostbyname env target = GaiError \<longrightarrow>
            scan_ports env target ports timeout
              = ([PrintError (''Cannot resolve hostname: '' @ target
                              @ ''. Please check the name or use an IP address.'')], Returned []))
         \<and> (\<forall>e. gethostbyname env target = ResolveException e \<longrightarrow>
              scan_ports env target ports timeout
                = ([PrintError (''An unexpected error occurred resolving hostname: '' @ e)],
                   Returned []))
         \<and> (\<exists>msg. scan_ports env target ports timeout = ([PrintError msg], Returned []))
         \<and> (\<forall>ps. parse_ports ports_str = ([], Returned ps) \<longrightarrow>
               scan_command is_ip env target ports_str timeout
                 = (fst (scan_ports env target ps timeout), Returned ())
               \<and> exit_code (snd (scan_command is_ip env target ports_str timeout)) = 0)"
proof -
  have a: "\<exists>msg. scan_ports env target ps timeout = ([PrintError msg], Returned [])" for ps
    using assms(1) by (cases "gethostbyname env target") (simp_all add: scan_ports_def)
  have v: "validate_host is_ip target = ([], Returned target)"
    using assms(2-5) by (simp add: validate_host_def)
  have b: "scan_command is_ip env target ports_str timeout
             = (fst (scan_ports env target ps timeout), Returned ())
           \<and> exit_code (snd (scan_command is_ip env target ports_str timeout)) = 0"
    if "parse_ports ports_str = ([], Returned ps)" for ps
  proof -
    from a [of ps] obtain msg where "scan_ports env target ps timeout = ([PrintError msg], Returned [])"
      by blast
    then show ?thesis
      using that v by (simp add: scan_command_def scan_def exit_code_def)
  qed
  have c: "gethostbyname env target = GaiError \<Longrightarrow>
            scan_ports env target ports timeout
              = ([PrintError (''Cannot resolve hostname: '' @ target
                              @ ''. Please check the name or use an IP address.'')], Returned [])"
    by (simp add: scan_ports_def)
  have d: "gethostbyname env target = ResolveException e \<Longrightarrow>
              scan_ports env target ports timeout
                = ([PrintError (''An unexpected error occurred resolving hostname: '' @ e)],
                   Returned [])" for e
    by (simp add: scan_ports_def)
  from a [of ports] b c d show ?thesis by blast
qed

theorem scan_ports_unresolvable_witness:
  "scan_ports demo_net ''nohost.invalid'' [80, 443] 0.5
     = ([PrintError ''Cannot resolve hostname: nohost.invalid. Please check the name or use an IP address.''],
        Returned [])
   \<and> scan_command is_ipv4 demo_net ''nohost.invalid'' None 0.5
     = ([PrintError ''Cannot resolve hostname: nohost.invalid. Please check the name or use an IP address.''],
        Returned ())
   \<and> exit_code (snd (scan_command is_ipv4 demo_net ''nohost.invalid'' None 0.5)) = 0"
proof -
  have free: "markup_free ''nohost.invalid''" by code_simp
  have gai: "gethostbyname demo_net ''nohost.invalid'' = GaiError" by (simp add: demo_net_def)
  have parsed: "parse_ports None = ([], Returned default_ports)" by (simp add: parse_ports_def)
  from scan_ports_unresolvable [of demo_net "''nohost.invalid''" "[80, 443]" "0.5" None is_ipv4]
       scan_ports_unresolvable [of demo_net "''nohost.invalid''" default_ports "0.5" None is_ipv4]
  show ?thesis
    by (simp add: free gai parsed)
qed

text \<open>
  Claim C3, evaluated where the code departs from it: the target resolves and the one
  port of the list refuses the connection. After the probe the call raises
  \<^verbatim>\<open>NameError\<close>; no summary is printed and nothing is returned.
\<close>

theorem scan_ports_no_open_port_raises:
  "scan_ports demo_net ''localhost'' [22] 0.5
     = ([PrintInfo ''Scanning localhost (127.0.0.1) for 1 port(s)...'',
         SockOpen, SockSetTimeout 0.5, SockConnectEx ''127.0.0.1'' 22, SockClose],
        Raised (NameError ''print_warning''))"
  by code_simp

text \<open>The same for every list of ports none of which is open, the empty list too.\<close>

lemma scan_ports_all_closed_raises:
  assumes "gethostbyname env target = Resolved ip"
    and "\<forall>p \<in> set ports. 0 \<le> p \<and> p \<le> 65535"
    and "\<forall>p \<in> set ports. connect_ex env ip p \<noteq> 0"
  shows "snd (scan_ports env target ports timeout) = Raised (NameError ''print_warning'')"
proof -
  from assms(3) have "filter (\<lambda>p. connect_ex env ip p = 0) ports = []"
    by (simp add: filter_empty_conv)
  then show ?thesis
    by (simp add: scan_ports_def assms(1) scan_loop_trace [OF assms(2)])
qed

text \<open>
  With an open port in the list the scan does run to its end: every port is probed once,
  in list order, and the summary counts the open and the closed ports, which add up to the
  length of the list.
\<close>

lemma scan_ports_some_open_completes:
  assumes "gethostbyname env target = Resolved ip"
    and "\<forall>p \<in> set ports. 0 \<le> p \<and> p \<le> 65535"
    and "\<exists>p \<in> set ports. connect_ex env ip p = 0"
  shows "filter (\<lambda>e. \<exists>a p. e = SockConnectEx a p) (fst (scan_ports env target ports timeout))
           = map (SockConnectEx ip) ports"
    and "last (fst (scan_ports env target ports timeout))
           = summary_line (length (filter (\<lambda>p. connect_ex env ip p = 0) ports))
                          (length (filter (\<lambda>p. connect_ex env ip p \<noteq> 0) ports))"
    and "length (filter (\<lambda>p. connect_ex env ip p = 0) ports)
           + length (filter (\<lambda>p. connect_ex env ip p \<noteq> 0) ports) = length ports"
proof -
  from assms(3) have ne: "filter (\<lambda>p. connect_ex env ip p = 0) ports \<noteq> []"
    by (simp add: filter_empty_conv)
  have probes: "filter (\<lambda>e. \<exists>a p. e = SockConnectEx a p) (concat (map (probe_events ip timeout) ps))
                  = map (SockConnectEx ip) ps" for ps
    by (induction ps) (simp_all add: probe_events_def)
  have lines: "filter (\<lambda>e. \<exists>a p. e = SockConnectEx a p) (map (open_port_line \<circ> f) xs) = []"
    for f :: "int \<Rightarrow> int \<times> string \<times> string" and xs
    by (induction xs) (simp_all add: open_port_line_def split: prod.splits)
  show "filter (\<lambda>e. \<exists>a p. e = SockConnectEx a p) (fst (scan_ports env target ports timeout))
           = map (SockConnectEx ip) ports"
    using ne
    by (simp add: scan_ports_def assms(1) scan_loop_trace [OF assms(2)] probes lines summary_line_def)
  show "last (fst (scan_ports env target ports timeout))
           = summary_line (length (filter (\<lambda>p. connect_ex env ip p = 0) ports))
                          (length (filter (\<lambda>p. connect_ex env ip p \<noteq> 0) ports))"
    using ne by (simp add: scan_ports_def assms(1) scan_loop_trace [OF assms(2)])
  show "length (filter (\<lambda>p. connect_ex env ip p = 0) ports)
           + length (filter (\<lambda>p. connect_ex env ip p \<noteq> 0) ports) = length ports"
    by (simp add: sum_length_filter_compl)
qed

section \<open>Properties of the reachability prober\<close>




text \<open>
  Claim C8, evaluated where the code departs from it: one packet is sent and answered, and
  the text of the reply is \<^verbatim>\<open>Reply from 8.8.8.8, 29 bytes in 12.3ms\<close>. Its fifth word
  has no \<^verbatim>\<open>=\<close>, the line printed for the reply raises \<^verbatim>\<open>IndexError\<close>, and the prober
  prints that error and returns \<^verbatim>\<open>False\<close> without any statistics.
\<close>

theorem ping_host_reply_text_raises:
  "ping_host (demo_ping [reply 12.3 ''Reply from 8.8.8.8, 29 bytes in 12.3ms'']) ''8.8.8.8'' 1 2 False
     = ([PrintInfo ''Pinging 8.8.8.8 with 1 packets, timeout 2s...'',
         PrintError ''Error pinging 8.8.8.8: list index out of range''], False)"
  by code_simp

text \<open>
  When the line of every reply can be printed, the statistics are those of the claim:
  the loop accumulates the sum, the number, the least and the greatest of the round-trip
  times of the replies.
\<close>



lemma ping_loop_stats:
  assumes "\<forall>r \<in> set rs. success r \<longrightarrow> reply_line r \<noteq> None"
  shows "\<exists>evs st'. ping_loop rs st = (evs, Some st')
           \<and> total_rtt st' = total_rtt st + sum_list (rtts rs)
           \<and> successful_pings st' = successful_pings st + int (length (rtts rs))
           \<and> min_rtt st' = foldl py_min (min_rtt st) (rtts rs)
           \<and> max_rtt st' = foldl py_max (max_rtt st) (rtts rs)"
  using assms
proof (induction rs arbitrary: st)
  case Nil
  show ?case by (simp add: rtts_def)
next
  case (Cons r rs)
  from Cons.prems have rest: "\<forall>r \<in> set rs. success r \<longrightarrow> reply_line r \<noteq> None" by simp
  show ?case
  proof (cases "success r")
    case True
    with Cons.prems obtain line where line: "reply_line r = Some line" by auto
    let ?st = "st\<lparr>total_rtt := total_rtt st + time_elapsed_ms r,
                   successful_pings := successful_pings st + 1,
                   min_rtt := py_min (min_rtt st) (time_elapsed_ms r),
                   max_rtt := py_max (max_rtt st) (time_elapsed_ms r)\<rparr>"
    from Cons.IH [OF rest, of ?st] obtain evs st' where
      "ping_loop rs ?st = (evs, Some st')"
      "total_rtt st' = total_rtt ?st + sum_list (rtts rs)"
      "successful_pings st' = successful_pings ?st + int (length (rtts rs))"
      "min_rtt st' = foldl py_min (min_rtt ?st) (rtts rs)"
      "max_rtt st' = foldl py_max (max_rtt ?st) (rtts rs)" by blast
    then show ?thesis using True line by (simp add: rtts_def Let_def)
  next
    case False
    from Cons.IH [OF rest, of "st\<lparr>all_successful := False\<rparr>"] obtain evs st' where
      "ping_loop rs (st\<lparr>all_successful := False\<rparr>) = (evs, Some st')"
      "total_rtt st' = total_rtt st + sum_list (rtts rs)"
      "successful_pings st' = successful_pings st + int (length (rtts rs))"
      "min_rtt st' = foldl py_min (min_rtt st) (rtts rs)"
      "max_rtt st' = foldl py_max (max_rtt st) (rtts rs)" by auto
    then show ?thesis using False by (simp add: rtts_def)
  qed
qed



lemma foldl_py_min_Fin: "foldl py_min (Fin m) xs = Fin (Min (insert m (set xs)))"
proof (induction xs arbitrary: m)
  case Nil
  show ?case by simp
next
  case (Cons x xs)
  have step: "py_min (Fin m) x = Fin (min m x)" by (simp add: py_min_def min_def)
  have "Min (insert (min m x) (set xs)) = Min (insert m (insert x (set xs)))"
    by (cases "xs = []") (simp_all add: min.assoc)
  then show ?case using Cons.IH [of "min m x"] by (simp add: step)
qed

lemma foldl_py_max: "foldl py_max m xs = Max (insert m (set xs))"
proof (induction xs arbitrary: m)
  case Nil
  show ?case by simp
next
  case (Cons x xs)
  have step: "py_max m x = max m x" by (simp add: py_max_def max_def)
  have "Max (insert (max m x) (set xs)) = Max (insert m (insert x (set xs)))"
    by (cases "xs = []") (simp_all add: max.assoc)
  then show ?case using Cons.IH [of "max m x"] by (simp add: step)
qed

lemma foldl_py_max_nonneg:
  assumes "xs \<noteq> []" and "\<forall>x \<in> set xs. 0 \<le> x"
  shows "foldl py_max 0 xs = Max (set xs)"
proof -
  from assms have "0 \<le> Max (set xs)"
    by (metis List.finite_set Max_ge_iff hd_in_set set_empty)
  with assms(1) show ?thesis by (simp add: foldl_py_max max_def)
qed

lemma foldl_py_min: "xs \<noteq> [] \<Longrightarrow> foldl py_min PosInf xs = Fin (Min (set xs))"
  by (cases xs) (simp_all add: py_min_def foldl_py_min_Fin)

lemma ping_host_statistics:
  assumes "execute_ping target count timeout verbose = Inr rs"
    and "count \<noteq> 0"
    and "\<forall>r \<in> set rs. success r \<longrightarrow> reply_line r \<noteq> None"
    and "\<exists>r \<in> set rs. success r"
    and "\<forall>r \<in> set rs. success r \<longrightarrow> 0 \<le> time_elapsed_ms r"
  shows "\<exists>evs. ping_host execute_ping target count timeout verbose =
           (evs @ [PrintSuccess (CHR 0x0A # ''Ping statistics for '' @ target @ '':''),
                   StatsPackets count (int (length (rtts rs))) (count - int (length (rtts rs)))
                     (real_of_int (count - int (length (rtts rs))) / real_of_int count * 100),
                   ConsolePrint ''Approximate round trip times in milli-seconds:'',
                   StatsRtt (Fin (Min (set (rtts rs)))) (Max (set (rtts rs)))
                     (sum_list (rtts rs) / real (length (rtts rs)))],
            True)"
proof -
  from assms(4) have ne: "rtts rs \<noteq> []"
    by (auto simp: rtts_def filter_empty_conv)
  from assms(5) have nonneg: "\<forall>x \<in> set (rtts rs). 0 \<le> x"
    by (auto simp: rtts_def)
  from ping_loop_stats [OF assms(3), of ping_init] obtain evs st' where
    loop: "ping_loop rs ping_init = (evs, Some st')"
    and tot: "total_rtt st' = sum_list (rtts rs)"
    and cnt: "successful_pings st' = int (length (rtts rs))"
    and mn: "min_rtt st' = foldl py_min PosInf (rtts rs)"
    and mx: "max_rtt st' = foldl py_max 0 (rtts rs)"
    by (auto simp: ping_init_def)
  from ne have pos: "0 < length (rtts rs)" by simp
  have "ping_host execute_ping target count timeout verbose =
          ((PrintInfo (''Pinging '' @ target @ '' with '' @ str_int count
                       @ '' packets, timeout '' @ str_int timeout @ ''s...'') # evs)
           @ [PrintSuccess (CHR 0x0A # ''Ping statistics for '' @ target @ '':''),
                   StatsPackets count (int (length (rtts rs))) (count - int (length (rtts rs)))
                     (real_of_int (count - int (length (rtts rs))) / real_of_int count * 100),
                   ConsolePrint ''Approximate round trip times in milli-seconds:'',
                   StatsRtt (Fin (Min (set (rtts rs)))) (Max (set (rtts rs)))
                     (sum_list (rtts rs) / real (length (rtts rs)))],
            True)"
    using pos assms(2)
    by (simp add: ping_host_def assms(1) loop tot cnt mn mx py_truediv_def
        foldl_py_min [OF ne] foldl_py_max_nonneg [OF ne nonneg])
  then show ?thesis by blast
qed

text \<open>The example of the specification: four packets, replies after 10, 20 and 30 ms.\<close>

lemma ping_host_example:
  "ping_host (demo_ping [reply 10 ''Reply from 8.8.8.8: 32 TTL=117'', no_reply,
                         reply 20 ''Reply from 8.8.8.8: 32 TTL=117'',
                         reply 30 ''Reply from 8.8.8.8: 32 TTL=117'']) ''8.8.8.8'' 4 2 False
     = ([PrintInfo ''Pinging 8.8.8.8 with 4 packets, timeout 2s...'',
         ReplyLine ''8.8.8.8'' ''32'' 10 ''117'', FailureLine ''No response'',
         ReplyLine ''8.8.8.8'' ''32'' 20 ''117'', ReplyLine ''8.8.8.8'' ''32'' 30 ''117'',
         PrintSuccess (CHR 0x0A # ''Ping statistics for 8.8.8.8:''), StatsPackets 4 3 1 25,
         ConsolePrint ''Approximate round trip times in milli-seconds:'',
         StatsRtt (Fin 10) 30 20],
        True)"
  by code_simp

section \<open>Properties of the DNS resolver\<close>







lemma name_to_text_relative:
  "labels = [] \<or> last labels \<noteq> [] \<Longrightarrow> name_to_text esc True labels = name_to_text esc False labels"
  by (auto simp: name_to_text_def)




text \<open>
  Claim C4, evaluated where the code departs from it: AAAA and A are requested for a name
  that has an A record and no AAAA record. The query for AAAA ends in \<^verbatim>\<open>NoAnswer\<close>, whose
  handler raises \<^verbatim>\<open>NameError\<close>: the call raises to its caller, \<^verbatim>\<open>No Answer\<close> is not
  appended, and A is not queried.
\<close>

theorem resolve_hostname_no_answer_raises:
  "resolve_hostname demo_dns ''example.com'' [''AAAA'', ''A'']
     = ([PrintInfo ''Performing DNS lookup for example.com, types: AAAA, A...''],
        Raised (NameError ''print_warning''))"
  by code_simp

text \<open>The other three outcomes without answers do append their text, and the loop goes on.\<close>

lemma resolve_loop_sentinel:
  assumes "upper r_type \<in> set SUPPORTED_RECORD_TYPES"
  shows "resolve env hostname (upper r_type) = NXDOMAIN \<Longrightarrow>
           snd (resolve_loop env hostname (r_type # rest) results)
             = snd (resolve_loop env hostname rest (append_result r_type ''NXDOMAIN'' results))"
    and "resolve env hostname (upper r_type) = Timeout \<Longrightarrow>
           snd (resolve_loop env hostname (r_type # rest) results)
             = snd (resolve_loop env hostname rest (append_result r_type ''Timeout'' results))"
    and "resolve env hostname (upper r_type) = ResolverError e \<Longrightarrow>
           snd (resolve_loop env hostname (r_type # rest) results)
             = snd (resolve_loop env hostname rest (append_result r_type (''Error: '' @ e) results))"
  using assms by (simp_all split: prod.splits)

lemma resolve_hostname_nxdomain_example:
  "snd (resolve_hostname demo_dns ''nosuch.invalid'' [''A'', ''MX''])
     = Returned [(''A'', [''NXDOMAIN'']), (''MX'', [''NXDOMAIN''])]"
  by code_simp

end
